theory Spec2Isabelle
  imports Main "HOL-Library.Word"
begin

section \<open>Data model of the builder/validator API (package ethapi, file api_mev)\<close>

text \<open>
  \<open>common.Hash\<close> is a 32-byte array, read here as one 256-bit value; \<open>common.Hash{}\<close>
  is the all-zero hash. Go's \<open>uint64\<close> is \<open>64 word\<close>, so \<open>+\<close> wraps as it does in Go.
  \<open>*big.Int\<close> is \<open>int option\<close>: \<open>None\<close> is the nil pointer.
\<close>

type_synonym hash = "256 word"
type_synonym uint64 = "64 word"
type_synonym bytes = "8 word list"

definition TransferTxGasLimit :: uint64 where
  "TransferTxGasLimit = 25000"

definition Big0 :: int where
  "Big0 = 0"

text \<open>\<open>(*big.Int).Cmp\<close>: -1, 0 or +1.\<close>

definition Cmp :: "int \<Rightarrow> int \<Rightarrow> int" where
  "Cmp x y = (if x < y then - 1 else if x = y then 0 else 1)"

text \<open>\<open>(*big.Int).Uint64\<close>: the low 64 bits of the absolute value.\<close>

definition Uint64 :: "int \<Rightarrow> uint64" where
  "Uint64 x = word_of_int \<bar>x\<bar>"

text \<open>
  Modelled from the spec: the structs \<open>RawBid\<close>, \<open>BidArgs\<close> and \<open>BidIssue\<close> of package
  \<open>types\<close> are declared outside the files at hand. The records keep the fields of the
  spec's data model, which are the fields that \<open>SendBid\<close> and \<open>ReportIssue\<close> read, with the
  types the code uses them at. A \<open>[]byte\<close> is a list: the nil slice and the empty slice
  both have length 0, which is all the code asks of \<open>PayBidTx\<close>.
\<close>

record RawBid =
  BlockNumber :: uint64
  ParentHash :: hash
  GasUsed :: uint64
  GasFee :: "int option"
  BuilderFee :: "int option"

record BidArgs =
  RawBid :: "RawBid option"
  PayBidTx :: bytes
  PayBidTxGasUsed :: uint64

record BidIssue =
  BidHash :: hash
  Message :: string

text \<open>
  Modelled from the spec: \<open>types.Header\<close> is declared outside the files at hand. The spec
  gives the Backend's current header as \<open>{number, hash}\<close>: \<open>Number\<close> is the \<open>*big.Int\<close>
  field and \<open>Hash\<close> is the value the method \<open>Hash()\<close> returns for this header.
\<close>

record Header =
  Number :: "int option"
  Hash :: hash

text \<open>
  A Go string built by \<open>fmt.Sprintf\<close> is kept as the format with its arguments, so that
  no rendering of a hash or a number is assumed.
\<close>

datatype fmt_arg = HashArg hash | Uint64Arg uint64

datatype message = Str string | Sprintf string "fmt_arg list"

text \<open>
  Modelled from the spec: the errors of package \<open>types\<close> (\<open>ErrMevNotRunning\<close>,
  \<open>ErrMevNotInTurn\<close>, \<open>NewInvalidBidError\<close>, \<open>NewInvalidPayBidTxError\<close>) are the kinds of
  the spec's error taxonomy; \<open>OtherError\<close> is any other error value of the Backend.
\<close>

datatype 'e error =
    is_ErrMevNotRunning: ErrMevNotRunning
  | is_ErrMevNotInTurn: ErrMevNotInTurn
  | is_InvalidBid: InvalidBidError message
  | is_InvalidPayBidTx: InvalidPayBidTxError message
  | is_OtherError: OtherError 'e

text \<open>
  The \<open>Backend\<close> interface: each method runs on the Backend's state \<open>'s\<close> and returns its
  result with the state it leaves. \<open>CurrentHeader\<close> returns a pointer, \<open>None\<close> when nil.
  \<open>'c\<close> is \<open>context.Context\<close>.
\<close>

record ('c, 's, 'e) Backend =
  MevRunning :: "'s \<Rightarrow> bool \<times> 's"
  MinerInTurn :: "'s \<Rightarrow> bool \<times> 's"
  CurrentHeader :: "'s \<Rightarrow> Header option \<times> 's"
  BackendSendBid :: "'c \<Rightarrow> BidArgs \<Rightarrow> 's \<Rightarrow> (hash \<times> 'e error option) \<times> 's"

text \<open>The calls a method of the API makes on its Backend, in order.\<close>

datatype 'c call =
    MevRunningCall
  | MinerInTurnCall
  | CurrentHeaderCall
  | is_SendBidCall: SendBidCall 'c BidArgs

text \<open>A call of a method returns its results, or it panics on a nil pointer.\<close>

datatype 'a outcome = Returned 'a | Panicked

section \<open>SendBid\<close>

text \<open>
  The checks on the builder fee and the pay-bid transaction (the \<open>if rawBid.BuilderFee != nil\<close>
  statement with its \<open>else\<close>): \<open>Some\<close> error of the first failing check, \<open>None\<close> when
  control reaches the call of the Backend. \<open>gasFee\<close> is the value of the non-nil
  \<open>rawBid.GasFee\<close>. The inner \<open>if\<close> of the zero-fee block has no \<open>else\<close> and falls
  through, so its two conditions are one conjunction here.
\<close>

definition checkBuilderFee :: "BidArgs \<Rightarrow> RawBid \<Rightarrow> int \<Rightarrow> 'e error option" where
  "checkBuilderFee args rawBid gasFee =
    (case BuilderFee rawBid of
       Some builderFee \<Rightarrow>
         if Cmp builderFee Big0 < 0 then
           Some (InvalidBidError (Str ''builder fee should not be less than 0''))
         else if Cmp builderFee Big0 = 0 \<and>
                 (length (PayBidTx args) \<noteq> 0 \<or> PayBidTxGasUsed args \<noteq> 0) then
           Some (InvalidPayBidTxError (Str ''payBidTx should be nil when builder fee is 0''))
         else if Cmp builderFee gasFee \<ge> 0 then
           Some (InvalidBidError (Str ''builder fee must be less than gas fee''))
         else if Cmp builderFee Big0 > 0 then
           (if PayBidTxGasUsed args > TransferTxGasLimit then
              Some (InvalidBidError
                (Sprintf ''transfer tx gas used must be no more than %v''
                   [Uint64Arg TransferTxGasLimit]))
            else if (length (PayBidTx args) = 0 \<and> PayBidTxGasUsed args \<noteq> 0) \<or>
                    (length (PayBidTx args) \<noteq> 0 \<and> PayBidTxGasUsed args = 0) then
              Some (InvalidPayBidTxError (Str ''non-aligned payBidTx and payBidTxGasUsed''))
            else None)
         else None
     | None \<Rightarrow>
         if length (PayBidTx args) \<noteq> 0 \<or> PayBidTxGasUsed args \<noteq> 0 then
           Some (InvalidPayBidTxError (Str ''payBidTx should be nil when builder fee is nil''))
         else None)"

text \<open>
  The checks on the bid against the current header, from \<open>rawBid == nil\<close> down to the
  builder-fee checks. \<open>Inl ()\<close> is a panic (a nil header, or a header whose \<open>Number\<close>
  is nil, dereferenced by \<open>currentHeader.Number.Uint64()\<close>); \<open>Inr\<close> is the error of the
  first failing check, or \<open>None\<close>.
\<close>

definition checkBid :: "BidArgs \<Rightarrow> Header option \<Rightarrow> unit + 'e error option" where
  "checkBid args currentHeader =
    (case RawBid args of
       None \<Rightarrow> Inr (Some (InvalidBidError (Str ''rawBid should not be nil'')))
     | Some rawBid \<Rightarrow>
        (case currentHeader of
           None \<Rightarrow> Inl ()
         | Some header \<Rightarrow>
            (case Number header of
               None \<Rightarrow> Inl ()
             | Some number \<Rightarrow>
                 if BlockNumber rawBid \<noteq> Uint64 number + 1 then
                   Inr (Some (InvalidBidError (Str ''stale block number or block in future'')))
                 else if ParentHash rawBid \<noteq> Hash header then
                   Inr (Some (InvalidBidError
                     (Sprintf ''non-aligned parent hash: %v'' [HashArg (Hash header)])))
                 else
                   (case GasFee rawBid of
                      None \<Rightarrow>
                        Inr (Some (InvalidBidError (Str ''empty gasFee or empty gasUsed'')))
                    | Some gasFee \<Rightarrow>
                        if Cmp gasFee Big0 = 0 \<or> GasUsed rawBid = 0 then
                          Inr (Some (InvalidBidError (Str ''empty gasFee or empty gasUsed'')))
                        else Inr (checkBuilderFee args rawBid gasFee)))))"

text \<open>
  \<open>SendBid m.b ctx args\<close> from the Backend's state \<open>s\<close>: the outcome, the state the
  Backend is left in, and the calls made on the Backend.
\<close>

definition SendBid ::
  "('c, 's, 'e) Backend \<Rightarrow> 'c \<Rightarrow> BidArgs \<Rightarrow> 's \<Rightarrow>
     (hash \<times> 'e error option) outcome \<times> 's \<times> 'c call list" where
  "SendBid b ctx args s =
    (case MevRunning b s of (running, s1) \<Rightarrow>
       if \<not> running then (Returned (0, Some ErrMevNotRunning), s1, [MevRunningCall])
       else
        (case MinerInTurn b s1 of (inTurn, s2) \<Rightarrow>
           if \<not> inTurn then
             (Returned (0, Some ErrMevNotInTurn), s2, [MevRunningCall, MinerInTurnCall])
           else
            (case CurrentHeader b s2 of (currentHeader, s3) \<Rightarrow>
              (case checkBid args currentHeader of
                 Inl _ \<Rightarrow> (Panicked, s3, [MevRunningCall, MinerInTurnCall, CurrentHeaderCall])
               | Inr (Some err) \<Rightarrow>
                   (Returned (0, Some err), s3,
                    [MevRunningCall, MinerInTurnCall, CurrentHeaderCall])
               | Inr None \<Rightarrow>
                  (case BackendSendBid b ctx args s3 of (r, s4) \<Rightarrow>
                     (Returned r, s4,
                      [MevRunningCall, MinerInTurnCall, CurrentHeaderCall,
                       SendBidCall ctx args]))))))"

section \<open>ReportIssue\<close>

text \<open>
  The logger is the list of records written so far; \<open>log.Error msg ctx\<close> appends one
  record of level Error with its key/value context.
\<close>

datatype log_value = HashValue hash | StringValue string

datatype log_record = LogError string "(string \<times> log_value) list"

text \<open>
  \<open>ReportIssue\<close> takes a pointer: reading \<open>args.BidHash\<close> of a nil \<open>args\<close> panics before
  anything is logged. The method makes no call on the Backend \<open>m.b\<close>, whose state \<open>s\<close> is
  returned as it was.
\<close>

definition ReportIssue ::
  "BidIssue option \<Rightarrow> 's \<Rightarrow> log_record list \<Rightarrow>
     ('e error option) outcome \<times> 's \<times> 'c call list \<times> log_record list" where
  "ReportIssue args s lg =
    (case args of
       None \<Rightarrow> (Panicked, s, [], lg)
     | Some issue \<Rightarrow>
         (Returned None, s, [],
          lg @ [LogError ''received issue''
                  [(''bidHash'', HashValue (BidHash issue)),
                   (''message'', StringValue (Message issue))]]))"

section \<open>Config.UnmarshalTOML (package ethconfig, file gen_config.go)\<close>

text \<open>
  \<open>Config\<close> has the fields that \<open>MarshalTOML\<close> and \<open>UnmarshalTOML\<close> copy, in the order of
  the file. Go's \<open>int\<close> and \<open>time.Duration\<close> are 64-bit integers. A pointer, a slice and a
  map are \<open>option\<close> values, \<open>None\<close> for nil. The types declared in other packages
  (\<open>core.Genesis\<close>, \<open>downloader.SyncMode\<close>, \<open>core.VerifyMode\<close>, \<open>miner.Config\<close>,
  \<open>legacypool.Config\<close>, \<open>blobpool.Config\<close>, \<open>gasprice.Config\<close>) and \<open>float64\<close> are the type
  parameters \<open>'g\<close>, \<open>'y\<close>, \<open>'v\<close>, \<open>'m\<close>, \<open>'t\<close>, \<open>'b\<close>, \<open>'p\<close> and \<open>'f\<close>: their values are
  only copied.
\<close>

type_synonym go_int = "64 word"
type_synonym duration = "64 word"

record ('g, 'y, 'v, 'm, 't, 'b, 'p, 'f) Config =
  Genesis :: "'g option"
  NetworkId :: uint64
  SyncMode :: "'y"
  DisablePeerTxBroadcast :: bool
  EthDiscoveryURLs :: "string list option"
  SnapDiscoveryURLs :: "string list option"
  TrustDiscoveryURLs :: "string list option"
  BscDiscoveryURLs :: "string list option"
  NoPruning :: bool
  NoPrefetch :: bool
  DirectBroadcast :: bool
  DisableSnapProtocol :: bool
  EnableTrustProtocol :: bool
  PipeCommit :: bool
  RangeLimit :: bool
  TxLookupLimit :: uint64
  TransactionHistory :: uint64
  StateHistory :: uint64
  StateScheme :: string
  PathSyncFlush :: bool
  JournalFileEnabled :: bool
  RequiredBlocks :: "(uint64 \<rightharpoonup> hash) option"
  LightServ :: go_int
  LightIngress :: go_int
  LightEgress :: go_int
  LightPeers :: go_int
  LightNoPrune :: bool
  LightNoSyncServe :: bool
  SkipBcVersionCheck :: bool
  DatabaseHandles :: go_int
  DatabaseCache :: go_int
  DatabaseFreezer :: string
  DatabaseDiff :: string
  PersistDiff :: bool
  DiffBlock :: uint64
  PruneAncientData :: bool
  TrieCleanCache :: go_int
  TrieDirtyCache :: go_int
  TrieTimeout :: duration
  SnapshotCache :: go_int
  TriesInMemory :: uint64
  TriesVerifyMode :: "'v"
  Preimages :: bool
  FilterLogCacheSize :: go_int
  Miner :: "'m"
  TxPool :: "'t"
  BlobPool :: "'b"
  GPO :: "'p"
  EnablePreimageRecording :: bool
  DocRoot :: string
  RPCGasCap :: uint64
  RPCEVMTimeout :: duration
  RPCTxFeeCap :: "'f"
  OverrideCancun :: "uint64 option"
  OverrideVerkle :: "uint64 option"
  BlobExtraReserve :: uint64

record ('g, 'y, 'v, 'm, 't, 'b, 'p, 'f) decConfig =
  dec_Genesis :: "'g option"
  dec_NetworkId :: "uint64 option"
  dec_SyncMode :: "'y option"
  dec_DisablePeerTxBroadcast :: "bool option"
  dec_EthDiscoveryURLs :: "string list option"
  dec_SnapDiscoveryURLs :: "string list option"
  dec_TrustDiscoveryURLs :: "string list option"
  dec_BscDiscoveryURLs :: "string list option"
  dec_NoPruning :: "bool option"
  dec_NoPrefetch :: "bool option"
  dec_DirectBroadcast :: "bool option"
  dec_DisableSnapProtocol :: "bool option"
  dec_EnableTrustProtocol :: "bool option"
  dec_PipeCommit :: "bool option"
  dec_RangeLimit :: "bool option"
  dec_TxLookupLimit :: "uint64 option"
  dec_TransactionHistory :: "uint64 option"
  dec_StateHistory :: "uint64 option"
  dec_StateScheme :: "string option"
  dec_PathSyncFlush :: "bool option"
  dec_JournalFileEnabled :: "bool option"
  dec_RequiredBlocks :: "(uint64 \<rightharpoonup> hash) option"
  dec_LightServ :: "go_int option"
  dec_LightIngress :: "go_int option"
  dec_LightEgress :: "go_int option"
  dec_LightPeers :: "go_int option"
  dec_LightNoPrune :: "bool option"
  dec_LightNoSyncServe :: "bool option"
  dec_SkipBcVersionCheck :: "bool option"
  dec_DatabaseHandles :: "go_int option"
  dec_DatabaseCache :: "go_int option"
  dec_DatabaseFreezer :: "string option"
  dec_DatabaseDiff :: "string option"
  dec_PersistDiff :: "bool option"
  dec_DiffBlock :: "uint64 option"
  dec_PruneAncientData :: "bool option"
  dec_TrieCleanCache :: "go_int option"
  dec_TrieDirtyCache :: "go_int option"
  dec_TrieTimeout :: "duration option"
  dec_SnapshotCache :: "go_int option"
  dec_TriesInMemory :: "uint64 option"
  dec_TriesVerifyMode :: "'v option"
  dec_Preimages :: "bool option"
  dec_FilterLogCacheSize :: "go_int option"
  dec_Miner :: "'m option"
  dec_TxPool :: "'t option"
  dec_BlobPool :: "'b option"
  dec_GPO :: "'p option"
  dec_EnablePreimageRecording :: "bool option"
  dec_DocRoot :: "string option"
  dec_RPCGasCap :: "uint64 option"
  dec_RPCEVMTimeout :: "duration option"
  dec_RPCTxFeeCap :: "'f option"
  dec_OverrideCancun :: "uint64 option"
  dec_OverrideVerkle :: "uint64 option"
  dec_BlobExtraReserve :: "uint64 option"

text \<open>
  \<open>decConfig\<close> is the local type \<open>Config\<close> of \<open>UnmarshalTOML\<close>, every field a pointer (or
  a slice or a map); \<open>decConfig_zero\<close> is \<open>var dec Config\<close>.
\<close>

definition decConfig_zero :: "('g, 'y, 'v, 'm, 't, 'b, 'p, 'f) decConfig" where
  "decConfig_zero =
    \<lparr> dec_Genesis = None,
      dec_NetworkId = None,
      dec_SyncMode = None,
      dec_DisablePeerTxBroadcast = None,
      dec_EthDiscoveryURLs = None,
      dec_SnapDiscoveryURLs = None,
      dec_TrustDiscoveryURLs = None,
      dec_BscDiscoveryURLs = None,
      dec_NoPruning = None,
      dec_NoPrefetch = None,
      dec_DirectBroadcast = None,
      dec_DisableSnapProtocol = None,
      dec_EnableTrustProtocol = None,
      dec_PipeCommit = None,
      dec_RangeLimit = None,
      dec_TxLookupLimit = None,
      dec_TransactionHistory = None,
      dec_StateHistory = None,
      dec_StateScheme = None,
      dec_PathSyncFlush = None,
      dec_JournalFileEnabled = None,
      dec_RequiredBlocks = None,
      dec_LightServ = None,
      dec_LightIngress = None,
      dec_LightEgress = None,
      dec_LightPeers = None,
      dec_LightNoPrune = None,
      dec_LightNoSyncServe = None,
      dec_SkipBcVersionCheck = None,
      dec_DatabaseHandles = None,
      dec_DatabaseCache = None,
      dec_DatabaseFreezer = None,
      dec_DatabaseDiff = None,
      dec_PersistDiff = None,
      dec_DiffBlock = None,
      dec_PruneAncientData = None,
      dec_TrieCleanCache = None,
      dec_TrieDirtyCache = None,
      dec_TrieTimeout = None,
      dec_SnapshotCache = None,
      dec_TriesInMemory = None,
      dec_TriesVerifyMode = None,
      dec_Preimages = None,
      dec_FilterLogCacheSize = None,
      dec_Miner = None,
      dec_TxPool = None,
      dec_BlobPool = None,
      dec_GPO = None,
      dec_EnablePreimageRecording = None,
      dec_DocRoot = None,
      dec_RPCGasCap = None,
      dec_RPCEVMTimeout = None,
      dec_RPCTxFeeCap = None,
      dec_OverrideCancun = None,
      dec_OverrideVerkle = None,
      dec_BlobExtraReserve = None \<rparr>"

text \<open>
  One statement \<open>if dec.F != nil { c.F = *dec.F }\<close> is the update of field \<open>F\<close> by
  \<open>assign_deref (dec.F)\<close>; where \<open>c.F\<close> is itself a pointer, a slice or a map the statement
  is \<open>if dec.F != nil { c.F = dec.F }\<close>, the update by \<open>assign_ref (dec.F)\<close>.
\<close>

definition assign_deref :: "'a option \<Rightarrow> 'a \<Rightarrow> 'a" where
  "assign_deref p old = (case p of None \<Rightarrow> old | Some v \<Rightarrow> v)"

definition assign_ref :: "'a option \<Rightarrow> 'a option \<Rightarrow> 'a option" where
  "assign_ref p old = (case p of None \<Rightarrow> old | Some v \<Rightarrow> Some v)"

text \<open>
  \<open>unmarshal\<close> is the decoder passed in: called on \<open>&dec\<close> it returns its error with what
  it has written to \<open>dec\<close>. The statements then run in the order of the file.
\<close>

definition UnmarshalTOML ::
  "('g, 'y, 'v, 'm, 't, 'b, 'p, 'f) Config \<Rightarrow> (('g, 'y, 'v, 'm, 't, 'b, 'p, 'f) decConfig \<Rightarrow> 'e option \<times> ('g, 'y, 'v, 'm, 't, 'b, 'p, 'f) decConfig) \<Rightarrow>
     'e option \<times> ('g, 'y, 'v, 'm, 't, 'b, 'p, 'f) Config" where
  "UnmarshalTOML c unmarshal =
    (case unmarshal decConfig_zero of
       (Some err, dec) \<Rightarrow> (Some err, c)
     | (None, dec) \<Rightarrow>
         (None,
          fold (\<lambda>assign c. assign c)
            [Genesis_update (assign_ref (dec_Genesis dec)),
             NetworkId_update (assign_deref (dec_NetworkId dec)),
             SyncMode_update (assign_deref (dec_SyncMode dec)),
             DisablePeerTxBroadcast_update (assign_deref (dec_DisablePeerTxBroadcast dec)),
             EthDiscoveryURLs_update (assign_ref (dec_EthDiscoveryURLs dec)),
             SnapDiscoveryURLs_update (assign_ref (dec_SnapDiscoveryURLs dec)),
             TrustDiscoveryURLs_update (assign_ref (dec_TrustDiscoveryURLs dec)),
             BscDiscoveryURLs_update (assign_ref (dec_BscDiscoveryURLs dec)),
             NoPruning_update (assign_deref (dec_NoPruning dec)),
             NoPrefetch_update (assign_deref (dec_NoPrefetch dec)),
             DirectBroadcast_update (assign_deref (dec_DirectBroadcast dec)),
             DisableSnapProtocol_update (assign_deref (dec_DisableSnapProtocol dec)),
             EnableTrustProtocol_update (assign_deref (dec_EnableTrustProtocol dec)),
             PipeCommit_update (assign_deref (dec_PipeCommit dec)),
             RangeLimit_update (assign_deref (dec_RangeLimit dec)),
             TxLookupLimit_update (assign_deref (dec_TxLookupLimit dec)),
             TransactionHistory_update (assign_deref (dec_TransactionHistory dec)),
             StateHistory_update (assign_deref (dec_StateHistory dec)),
             StateScheme_update (assign_deref (dec_StateScheme dec)),
             PathSyncFlush_update (assign_deref (dec_PathSyncFlush dec)),
             JournalFileEnabled_update (assign_deref (dec_JournalFileEnabled dec)),
             RequiredBlocks_update (assign_ref (dec_RequiredBlocks dec)),
             LightServ_update (assign_deref (dec_LightServ dec)),
             LightIngress_update (assign_deref (dec_LightIngress dec)),
             LightEgress_update (assign_deref (dec_LightEgress dec)),
             LightPeers_update (assign_deref (dec_LightPeers dec)),
             LightNoPrune_update (assign_deref (dec_LightNoPrune dec)),
             LightNoSyncServe_update (assign_deref (dec_LightNoSyncServe dec)),
             SkipBcVersionCheck_update (assign_deref (dec_SkipBcVersionCheck dec)),
             DatabaseHandles_update (assign_deref (dec_DatabaseHandles dec)),
             DatabaseCache_update (assign_deref (dec_DatabaseCache dec)),
             DatabaseFreezer_update (assign_deref (dec_DatabaseFreezer dec)),
             DatabaseDiff_update (assign_deref (dec_DatabaseDiff dec)),
             PersistDiff_update (assign_deref (dec_PersistDiff dec)),
             DiffBlock_update (assign_deref (dec_DiffBlock dec)),
             PruneAncientData_update (assign_deref (dec_PruneAncientData dec)),
             TrieCleanCache_update (assign_deref (dec_TrieCleanCache dec)),
             TrieDirtyCache_update (assign_deref (dec_TrieDirtyCache dec)),
             TrieTimeout_update (assign_deref (dec_TrieTimeout dec)),
             SnapshotCache_update (assign_deref (dec_SnapshotCache dec)),
             TriesInMemory_update (assign_deref (dec_TriesInMemory dec)),
             TriesVerifyMode_update (assign_deref (dec_TriesVerifyMode dec)),
             Preimages_update (assign_deref (dec_Preimages dec)),
             FilterLogCacheSize_update (assign_deref (dec_FilterLogCacheSize dec)),
             Miner_update (assign_deref (dec_Miner dec)),
             TxPool_update (assign_deref (dec_TxPool dec)),
             BlobPool_update (assign_deref (dec_BlobPool dec)),
             GPO_update (assign_deref (dec_GPO dec)),
             EnablePreimageRecording_update (assign_deref (dec_EnablePreimageRecording dec)),
             DocRoot_update (assign_deref (dec_DocRoot dec)),
             RPCGasCap_update (assign_deref (dec_RPCGasCap dec)),
             RPCEVMTimeout_update (assign_deref (dec_RPCEVMTimeout dec)),
             RPCTxFeeCap_update (assign_deref (dec_RPCTxFeeCap dec)),
             OverrideCancun_update (assign_ref (dec_OverrideCancun dec)),
             OverrideVerkle_update (assign_ref (dec_OverrideVerkle dec)),
             BlobExtraReserve_update (assign_deref (dec_BlobExtraReserve dec))]
            c))"

section \<open>Vocabulary of the specification\<close>

text \<open>
  The validator itself rejects a bid with an error of the given kind: it returns the zero
  hash with that error and has made no call of the Backend's \<open>SendBid\<close>.
\<close>

definition rejects_with ::
  "('e error \<Rightarrow> bool) \<Rightarrow> (hash \<times> 'e error option) outcome \<times> 's \<times> 'c call list \<Rightarrow> bool" where
  "rejects_with kind r =
    (case r of
       (Returned (h, Some err), s', calls) \<Rightarrow>
         h = 0 \<and> kind err \<and> \<not> list_ex is_SendBidCall calls
     | _ \<Rightarrow> False)"

text \<open>
  The rules that couple the builder fee and the pay-bid transaction, in the words of the
  specification's data model (items 4 and 5 of its invariant set).
\<close>

definition spec_builder_fee_rules :: "BidArgs \<Rightarrow> RawBid \<Rightarrow> int \<Rightarrow> bool" where
  "spec_builder_fee_rules args rawBid gasFee =
    (case BuilderFee rawBid of
       Some builderFee \<Rightarrow>
         0 \<le> builderFee
         \<and> (builderFee = 0 \<longrightarrow> PayBidTx args = [] \<and> PayBidTxGasUsed args = 0)
         \<and> builderFee < gasFee
         \<and> (0 < builderFee \<longrightarrow>
              PayBidTxGasUsed args \<le> 25000
              \<and> ((PayBidTx args \<noteq> []) = (PayBidTxGasUsed args \<noteq> 0)))
     | None \<Rightarrow> PayBidTx args = [] \<and> PayBidTxGasUsed args = 0)"

text \<open>
  The violation of the settlement-transaction coupling as claim C7 words it:
  (i) the builder fee is absent or exactly zero while the pay-bid transaction is non-empty
  or its gas used is non-zero, or (ii) the builder fee is strictly positive, the gas used
  does not exceed the ceiling, and exactly one of the two is present.
\<close>

definition stated_coupling_violated :: "BidArgs \<Rightarrow> RawBid \<Rightarrow> bool" where
  "stated_coupling_violated args rawBid =
    (((BuilderFee rawBid = None \<or> BuilderFee rawBid = Some 0)
        \<and> (PayBidTx args \<noteq> [] \<or> PayBidTxGasUsed args \<noteq> 0))
     \<or> ((case BuilderFee rawBid of None \<Rightarrow> False | Some builderFee \<Rightarrow> 0 < builderFee)
        \<and> PayBidTxGasUsed args \<le> 25000
        \<and> ((PayBidTx args \<noteq> []) \<noteq> (PayBidTxGasUsed args \<noteq> 0))))"

text \<open>The same, with (ii) restricted to a builder fee strictly less than the gas fee.\<close>

definition coupling_violated :: "BidArgs \<Rightarrow> RawBid \<Rightarrow> int \<Rightarrow> bool" where
  "coupling_violated args rawBid gasFee =
    (((BuilderFee rawBid = None \<or> BuilderFee rawBid = Some 0)
        \<and> (PayBidTx args \<noteq> [] \<or> PayBidTxGasUsed args \<noteq> 0))
     \<or> ((case BuilderFee rawBid of None \<Rightarrow> False
          | Some builderFee \<Rightarrow> 0 < builderFee \<and> builderFee < gasFee)
        \<and> PayBidTxGasUsed args \<le> 25000
        \<and> ((PayBidTx args \<noteq> []) \<noteq> (PayBidTxGasUsed args \<noteq> 0))))"

text \<open>
  A present wire field overwrites the target field with the decoded value, an absent one
  leaves it unchanged: \<open>wire\<close> is the decoded field, \<open>old\<close> and \<open>new\<close> the target field before
  and after.
\<close>

definition merged :: "'a option \<Rightarrow> 'a \<Rightarrow> 'a \<Rightarrow> bool" where
  "merged wire old new \<longleftrightarrow> (case wire of Some v \<Rightarrow> new = v | None \<Rightarrow> new = old)"

definition merged_ref :: "'a option \<Rightarrow> 'a option \<Rightarrow> 'a option \<Rightarrow> bool" where
  "merged_ref wire old new \<longleftrightarrow> (case wire of Some v \<Rightarrow> new = Some v | None \<Rightarrow> new = old)"

definition fields_merged ::
  "('g, 'y, 'v, 'm, 't, 'b, 'p, 'f) decConfig \<Rightarrow> ('g, 'y, 'v, 'm, 't, 'b, 'p, 'f) Config \<Rightarrow> ('g, 'y, 'v, 'm, 't, 'b, 'p, 'f) Config \<Rightarrow> bool" where
  "fields_merged dec c c' \<longleftrightarrow>
     merged_ref (dec_Genesis dec) (Genesis c) (Genesis c')
     \<and> merged (dec_NetworkId dec) (NetworkId c) (NetworkId c')
     \<and> merged (dec_SyncMode dec) (SyncMode c) (SyncMode c')
     \<and> merged (dec_DisablePeerTxBroadcast dec) (DisablePeerTxBroadcast c) (DisablePeerTxBroadcast c')
     \<and> merged_ref (dec_EthDiscoveryURLs dec) (EthDiscoveryURLs c) (EthDiscoveryURLs c')
     \<and> merged_ref (dec_SnapDiscoveryURLs dec) (SnapDiscoveryURLs c) (SnapDiscoveryURLs c')
     \<and> merged_ref (dec_TrustDiscoveryURLs dec) (TrustDiscoveryURLs c) (TrustDiscoveryURLs c')
     \<and> merged_ref (dec_BscDiscoveryURLs dec) (BscDiscoveryURLs c) (BscDiscoveryURLs c')
     \<and> merged (dec_NoPruning dec) (NoPruning c) (NoPruning c')
     \<and> merged (dec_NoPrefetch dec) (NoPrefetch c) (NoPrefetch c')
     \<and> merged (dec_DirectBroadcast dec) (DirectBroadcast c) (DirectBroadcast c')
     \<and> merged (dec_DisableSnapProtocol dec) (DisableSnapProtocol c) (DisableSnapProtocol c')
     \<and> merged (dec_EnableTrustProtocol dec) (EnableTrustProtocol c) (EnableTrustProtocol c')
     \<and> merged (dec_PipeCommit dec) (PipeCommit c) (PipeCommit c')
     \<and> merged (dec_RangeLimit dec) (RangeLimit c) (RangeLimit c')
     \<and> merged (dec_TxLookupLimit dec) (TxLookupLimit c) (TxLookupLimit c')
     \<and> merged (dec_TransactionHistory dec) (TransactionHistory c) (TransactionHistory c')
     \<and> merged (dec_StateHistory dec) (StateHistory c) (StateHistory c')
     \<and> merged (dec_StateScheme dec) (StateScheme c) (StateScheme c')
     \<and> merged (dec_PathSyncFlush dec) (PathSyncFlush c) (PathSyncFlush c')
     \<and> merged (dec_JournalFileEnabled dec) (JournalFileEnabled c) (JournalFileEnabled c')
     \<and> merged_ref (dec_RequiredBlocks dec) (RequiredBlocks c) (RequiredBlocks c')
     \<and> merged (dec_LightServ dec) (LightServ c) (LightServ c')
     \<and> merged (dec_LightIngress dec) (LightIngress c) (LightIngress c')
     \<and> merged (dec_LightEgress dec) (LightEgress c) (LightEgress c')
     \<and> merged (dec_LightPeers dec) (LightPeers c) (LightPeers c')
     \<and> merged (dec_LightNoPrune dec) (LightNoPrune c) (LightNoPrune c')
     \<and> merged (dec_LightNoSyncServe dec) (LightNoSyncServe c) (LightNoSyncServe c')
     \<and> merged (dec_SkipBcVersionCheck dec) (SkipBcVersionCheck c) (SkipBcVersionCheck c')
     \<and> merged (dec_DatabaseHandles dec) (DatabaseHandles c) (DatabaseHandles c')
     \<and> merged (dec_DatabaseCache dec) (DatabaseCache c) (DatabaseCache c')
     \<and> merged (dec_DatabaseFreezer dec) (DatabaseFreezer c) (DatabaseFreezer c')
     \<and> merged (dec_DatabaseDiff dec) (DatabaseDiff c) (DatabaseDiff c')
     \<and> merged (dec_PersistDiff dec) (PersistDiff c) (PersistDiff c')
     \<and> merged (dec_DiffBlock dec) (DiffBlock c) (DiffBlock c')
     \<and> merged (dec_PruneAncientData dec) (PruneAncientData c) (PruneAncientData c')
     \<and> merged (dec_TrieCleanCache dec) (TrieCleanCache c) (TrieCleanCache c')
     \<and> merged (dec_TrieDirtyCache dec) (TrieDirtyCache c) (TrieDirtyCache c')
     \<and> merged (dec_TrieTimeout dec) (TrieTimeout c) (TrieTimeout c')
     \<and> merged (dec_SnapshotCache dec) (SnapshotCache c) (SnapshotCache c')
     \<and> merged (dec_TriesInMemory dec) (TriesInMemory c) (TriesInMemory c')
     \<and> merged (dec_TriesVerifyMode dec) (TriesVerifyMode c) (TriesVerifyMode c')
     \<and> merged (dec_Preimages dec) (Preimages c) (Preimages c')
     \<and> merged (dec_FilterLogCacheSize dec) (FilterLogCacheSize c) (FilterLogCacheSize c')
     \<and> merged (dec_Miner dec) (Miner c) (Miner c')
     \<and> merged (dec_TxPool dec) (TxPool c) (TxPool c')
     \<and> merged (dec_BlobPool dec) (BlobPool c) (BlobPool c')
     \<and> merged (dec_GPO dec) (GPO c) (GPO c')
     \<and> merged (dec_EnablePreimageRecording dec) (EnablePreimageRecording c) (EnablePreimageRecording c')
     \<and> merged (dec_DocRoot dec) (DocRoot c) (DocRoot c')
     \<and> merged (dec_RPCGasCap dec) (RPCGasCap c) (RPCGasCap c')
     \<and> merged (dec_RPCEVMTimeout dec) (RPCEVMTimeout c) (RPCEVMTimeout c')
     \<and> merged (dec_RPCTxFeeCap dec) (RPCTxFeeCap c) (RPCTxFeeCap c')
     \<and> merged_ref (dec_OverrideCancun dec) (OverrideCancun c) (OverrideCancun c')
     \<and> merged_ref (dec_OverrideVerkle dec) (OverrideVerkle c) (OverrideVerkle c')
     \<and> merged (dec_BlobExtraReserve dec) (BlobExtraReserve c) (BlobExtraReserve c')"

section \<open>Concrete inputs\<close>

text \<open>
  A Backend over a counter of the bids it has received: its head is block 41 with hash
  \<open>0xAB\<close>, and it accepts every bid with the handle \<open>0xB1D\<close>.
\<close>

definition fake_backend :: "bool \<Rightarrow> bool \<Rightarrow> (unit, nat, unit) Backend" where
  "fake_backend running inTurn =
    \<lparr> MevRunning = (\<lambda>s. (running, s)),
      MinerInTurn = (\<lambda>s. (inTurn, s)),
      CurrentHeader = (\<lambda>s. (Some \<lparr> Number = Some 41, Hash = 0xAB \<rparr>, s)),
      BackendSendBid = (\<lambda>ctx args s. ((0xB1D, None), Suc s)) \<rparr>"

text \<open>A bid for block 42 on that head, using 21000 gas.\<close>

definition bid :: "int option \<Rightarrow> int option \<Rightarrow> bytes \<Rightarrow> uint64 \<Rightarrow> BidArgs" where
  "bid gasFee builderFee payBidTx payBidTxGasUsed =
    \<lparr> RawBid = Some \<lparr> BlockNumber = 42, ParentHash = 0xAB, GasUsed = 21000,
                      GasFee = gasFee, BuilderFee = builderFee \<rparr>,
      PayBidTx = payBidTx, PayBidTxGasUsed = payBidTxGasUsed \<rparr>"

text \<open>The zero value of \<open>Config\<close>, the external types being \<open>unit\<close>.\<close>

definition Config_zero :: "(unit, unit, unit, unit, unit, unit, unit, unit) Config" where
  "Config_zero =
    \<lparr> Genesis = None,
      NetworkId = 0,
      SyncMode = (),
      DisablePeerTxBroadcast = False,
      EthDiscoveryURLs = None,
      SnapDiscoveryURLs = None,
      TrustDiscoveryURLs = None,
      BscDiscoveryURLs = None,
      NoPruning = False,
      NoPrefetch = False,
      DirectBroadcast = False,
      DisableSnapProtocol = False,
      EnableTrustProtocol = False,
      PipeCommit = False,
      RangeLimit = False,
      TxLookupLimit = 0,
      TransactionHistory = 0,
      StateHistory = 0,
      StateScheme = '''',
      PathSyncFlush = False,
      JournalFileEnabled = False,
      RequiredBlocks = None,
      LightServ = 0,
      LightIngress = 0,
      LightEgress = 0,
      LightPeers = 0,
      LightNoPrune = False,
      LightNoSyncServe = False,
      SkipBcVersionCheck = False,
      DatabaseHandles = 0,
      DatabaseCache = 0,
      DatabaseFreezer = '''',
      DatabaseDiff = '''',
      PersistDiff = False,
      DiffBlock = 0,
      PruneAncientData = False,
      TrieCleanCache = 0,
      TrieDirtyCache = 0,
      TrieTimeout = 0,
      SnapshotCache = 0,
      TriesInMemory = 0,
      TriesVerifyMode = (),
      Preimages = False,
      FilterLogCacheSize = 0,
      Miner = (),
      TxPool = (),
      BlobPool = (),
      GPO = (),
      EnablePreimageRecording = False,
      DocRoot = '''',
      RPCGasCap = 0,
      RPCEVMTimeout = 0,
      RPCTxFeeCap = (),
      OverrideCancun = None,
      OverrideVerkle = None,
      BlobExtraReserve = 0 \<rparr>"

section \<open>Auxiliary facts\<close>

lemma rejects_with_Returned [simp]:
  "rejects_with kind (Returned (h, Some err), s', calls) \<longleftrightarrow>
     h = 0 \<and> kind err \<and> \<not> list_ex is_SendBidCall calls"
  by (simp add: rejects_with_def)

lemma rejects_with_nil_error [simp]:
  "\<not> rejects_with kind (Returned (h, None), s', calls)"
  by (simp add: rejects_with_def)

lemma rejects_with_submitted:
  "list_ex is_SendBidCall calls \<Longrightarrow> \<not> rejects_with kind (r, s', calls)"
  by (simp add: rejects_with_def split: outcome.splits option.splits)

lemma Cmp_Big0 [simp]:
  "Cmp x Big0 < 0 \<longleftrightarrow> x < 0" "Cmp x Big0 = 0 \<longleftrightarrow> x = 0" "Cmp x Big0 > 0 \<longleftrightarrow> 0 < x"
  by (simp_all add: Cmp_def Big0_def)

lemma Cmp_ge [simp]: "Cmp x y \<ge> 0 \<longleftrightarrow> y \<le> x"
  by (simp add: Cmp_def)

text \<open>Past the two gates, \<open>SendBid\<close> is decided by the checks on the bid.\<close>

lemma SendBid_checked:
  assumes "MevRunning b s = (True, s1)" "MinerInTurn b s1 = (True, s2)"
    "CurrentHeader b s2 = (hdr, s3)"
  shows "SendBid b ctx args s =
    (case checkBid args hdr of
       Inl _ \<Rightarrow> (Panicked, s3, [MevRunningCall, MinerInTurnCall, CurrentHeaderCall])
     | Inr (Some err) \<Rightarrow>
         (Returned (0, Some err), s3, [MevRunningCall, MinerInTurnCall, CurrentHeaderCall])
     | Inr None \<Rightarrow>
         (case BackendSendBid b ctx args s3 of (r, s4) \<Rightarrow>
            (Returned r, s4,
             [MevRunningCall, MinerInTurnCall, CurrentHeaderCall, SendBidCall ctx args])))"
  using assms by (simp add: SendBid_def)

text \<open>Past the height and parent-hash checks, the fee checks decide.\<close>

lemma checkBid_fees:
  assumes "RawBid args = Some rawBid" "Number header = Some number"
    "BlockNumber rawBid = Uint64 number + 1" "ParentHash rawBid = Hash header"
  shows "checkBid args (Some header) =
    (case GasFee rawBid of
       None \<Rightarrow> Inr (Some (InvalidBidError (Str ''empty gasFee or empty gasUsed'')))
     | Some gasFee \<Rightarrow>
         if gasFee = 0 \<or> GasUsed rawBid = 0 then
           Inr (Some (InvalidBidError (Str ''empty gasFee or empty gasUsed'')))
         else Inr (checkBuilderFee args rawBid gasFee))"
  using assms by (simp add: checkBid_def split: option.splits)

lemma checkBid_builder_fee:
  assumes "RawBid args = Some rawBid" "Number header = Some number"
    "BlockNumber rawBid = Uint64 number + 1" "ParentHash rawBid = Hash header"
    "GasFee rawBid = Some gasFee" "gasFee \<noteq> 0" "GasUsed rawBid \<noteq> 0"
  shows "checkBid args (Some header) = Inr (checkBuilderFee args rawBid gasFee)"
  using assms by (simp add: checkBid_fees)

text \<open>
  The builder-fee checks of the code pass exactly on the bids that satisfy the rules of
  the specification's data model.
\<close>

lemma checkBuilderFee_None_iff:
  "(checkBuilderFee args rawBid gasFee = (None :: 'e error option)) \<longleftrightarrow>
     spec_builder_fee_rules args rawBid gasFee"
  by (auto simp: checkBuilderFee_def spec_builder_fee_rules_def TransferTxGasLimit_def
      split: option.splits)

lemma checkBuilderFee_InvalidPayBidTx_iff:
  "(\<exists>err. checkBuilderFee args rawBid gasFee = Some (err :: 'e error) \<and> is_InvalidPayBidTx err)
     \<longleftrightarrow> coupling_violated args rawBid gasFee"
  by (auto simp: checkBuilderFee_def coupling_violated_def TransferTxGasLimit_def
      split: option.splits)

text \<open>
  The height check compares in \<open>uint64\<close>, as the code does. For a header number that is a
  block height (non-negative, its successor below \<open>2^64\<close>) this is the comparison of the
  integers.
\<close>

lemma next_height_int:
  assumes "0 \<le> number" and "number + 1 < 2 ^ 64"
  shows "(blockNumber = Uint64 number + 1) \<longleftrightarrow> (uint blockNumber = number + 1)"
proof -
  have "uint (Uint64 number + 1) = (number + 1) mod 2 ^ 64"
    using assms(1) by (simp add: Uint64_def uint_word_ariths uint_word_of_int mod_simps)
  also have "\<dots> = number + 1"
    using assms by simp
  finally have "uint (Uint64 number + 1) = number + 1" .
  then show ?thesis
    by (simp only: word_uint_eq_iff)
qed

lemma merged_assign_deref: "merged p old (assign_deref p old)"
  by (simp add: merged_def assign_deref_def split: option.split)

lemma merged_assign_ref: "merged_ref p old (assign_ref p old)"
  by (simp add: merged_ref_def assign_ref_def split: option.split)

lemma UnmarshalTOML_failed:
  "unmarshal decConfig_zero = (Some err, dec) \<Longrightarrow> UnmarshalTOML c unmarshal = (Some err, c)"
  by (simp add: UnmarshalTOML_def)

lemma UnmarshalTOML_decoded:
  "unmarshal decConfig_zero = (None, dec) \<Longrightarrow>
     fst (UnmarshalTOML c unmarshal) = None
     \<and> fields_merged dec c (snd (UnmarshalTOML c unmarshal))"
  unfolding fields_merged_def
  by (simp add: UnmarshalTOML_def merged_assign_deref merged_assign_ref)

section \<open>SendBid: the claims\<close>

text \<open>
  Claim C1. A bid that passes every admission check (MEV running, node in turn, \<open>rawBid\<close>
  non-nil, block number equal to the current height plus one, parent hash equal to the
  current header's hash, \<open>gasFee\<close> non-nil and non-zero, \<open>gasUsed\<close> non-zero, and the rules
  coupling the builder fee and the pay-bid transaction) is forwarded to the Backend's
  \<open>SendBid\<close> as the very argument value received, exactly once and as the last call, and
  \<open>SendBid\<close> returns the pair of hash and error that the Backend returns, whatever it is,
  an error included.
\<close>

theorem SendBid_forwards:
  assumes "MevRunning b s = (True, s1)" and "MinerInTurn b s1 = (True, s2)"
    and "CurrentHeader b s2 = (Some header, s3)" and "Number header = Some number"
    and "RawBid args = Some rawBid"
    and "BlockNumber rawBid = Uint64 number + 1"
    and "ParentHash rawBid = Hash header"
    and "GasFee rawBid = Some gasFee" and "gasFee \<noteq> 0" and "GasUsed rawBid \<noteq> 0"
    and "spec_builder_fee_rules args rawBid gasFee"
    and "BackendSendBid b ctx args s3 = (r, s4)"
  shows "SendBid b ctx args s =
    (Returned r, s4,
     [MevRunningCall, MinerInTurnCall, CurrentHeaderCall, SendBidCall ctx args])"
  using assms(11,12)
  by (simp add: SendBid_checked [OF assms(1,2,3)]
      checkBid_builder_fee [OF assms(5,4,6,7,8,9,10)] checkBuilderFee_None_iff [THEN iffD2])

text \<open>
  Scenario A of the specification: height head + 1, matching parent hash, gas fee 100, gas
  used 21000, no builder fee, no pay-bid transaction.
\<close>

theorem SendBid_forwards_witness:
  "SendBid (fake_backend True True) () (bid (Some 100) None [] 0) 0 =
     (Returned (0xB1D, None), 1,
      [MevRunningCall, MinerInTurnCall, CurrentHeaderCall,
       SendBidCall () (bid (Some 100) None [] 0)])"
  using SendBid_forwards [of "fake_backend True True" 0 0 0
      "\<lparr> Number = Some 41, Hash = 0xAB \<rparr>" 0 41 "bid (Some 100) None [] 0"
      "\<lparr> BlockNumber = 42, ParentHash = 0xAB, GasUsed = 21000,
         GasFee = Some 100, BuilderFee = None \<rparr>" 100 "()" "(0xB1D, None)" 1]
  by (simp add: fake_backend_def bid_def Uint64_def spec_builder_fee_rules_def)

text \<open>
  Claim C2. If the Backend reports MEV not running, \<open>SendBid\<close> returns \<open>ErrMevNotRunning\<close>;
  if MEV is running and the Backend reports the node not in turn, it returns
  \<open>ErrMevNotInTurn\<close>. In both cases the result is the same for every argument (no field of
  the bid is examined), and the calls made on the Backend are the gate queries alone: its
  \<open>SendBid\<close> is not called.
\<close>

theorem SendBid_gate:
  "(MevRunning b s = (False, s1) \<longrightarrow>
      (\<forall>args. SendBid b ctx args s =
         (Returned (0, Some ErrMevNotRunning), s1, [MevRunningCall])))
   \<and> (MevRunning b s = (True, s1) \<and> MinerInTurn b s1 = (False, s2) \<longrightarrow>
      (\<forall>args. SendBid b ctx args s =
         (Returned (0, Some ErrMevNotInTurn), s2, [MevRunningCall, MinerInTurnCall])))"
  by (simp add: SendBid_def)

text \<open>Scenarios E and F of the specification.\<close>

theorem SendBid_gate_witness:
  "SendBid (fake_backend False True) () (bid (Some 100) None [] 0) 0 =
     (Returned (0, Some ErrMevNotRunning), 0, [MevRunningCall])
   \<and> SendBid (fake_backend True False) () (bid (Some 100) None [] 0) 0 =
     (Returned (0, Some ErrMevNotInTurn), 0, [MevRunningCall, MinerInTurnCall])"
  using SendBid_gate [of "fake_backend False True" 0 0 "()" 0]
    SendBid_gate [of "fake_backend True False" 0 0 "()" 0]
  by (simp add: fake_backend_def)

text \<open>
  Claim C3. With MEV running and the node in turn, a bid whose \<open>BlockNumber\<close> differs from
  the current header's number plus one (computed as the code computes it, in \<open>uint64\<close>) is
  rejected with an InvalidBid error, and the Backend's \<open>SendBid\<close> is not called: the calls
  made are the two gate queries and \<open>CurrentHeader\<close>. Only the next height passes.
\<close>

theorem SendBid_wrong_height:
  assumes "MevRunning b s = (True, s1)" and "MinerInTurn b s1 = (True, s2)"
    and "CurrentHeader b s2 = (Some header, s3)" and "Number header = Some number"
    and "RawBid args = Some rawBid"
    and "BlockNumber rawBid \<noteq> Uint64 number + 1"
  shows "SendBid b ctx args s =
    (Returned (0, Some (InvalidBidError (Str ''stale block number or block in future''))), s3,
     [MevRunningCall, MinerInTurnCall, CurrentHeaderCall])"
  using assms(4,5,6) by (simp add: SendBid_checked [OF assms(1,2,3)] checkBid_def)

text \<open>A bid for block 43 on head 41.\<close>

theorem SendBid_wrong_height_witness:
  "SendBid (fake_backend True True) ()
     \<lparr> RawBid = Some \<lparr> BlockNumber = 43, ParentHash = 0xAB, GasUsed = 21000,
                       GasFee = Some 100, BuilderFee = None \<rparr>,
       PayBidTx = [], PayBidTxGasUsed = 0 \<rparr> 0 =
     (Returned (0, Some (InvalidBidError (Str ''stale block number or block in future''))), 0,
      [MevRunningCall, MinerInTurnCall, CurrentHeaderCall])"
  using SendBid_wrong_height [of "fake_backend True True" 0 0 0
      "\<lparr> Number = Some 41, Hash = 0xAB \<rparr>" 0 41
      "\<lparr> RawBid = Some \<lparr> BlockNumber = 43, ParentHash = 0xAB, GasUsed = 21000,
                        GasFee = Some 100, BuilderFee = None \<rparr>,
        PayBidTx = [], PayBidTxGasUsed = 0 \<rparr>"
      "\<lparr> BlockNumber = 43, ParentHash = 0xAB, GasUsed = 21000,
         GasFee = Some 100, BuilderFee = None \<rparr>" "()"]
  by (simp add: fake_backend_def Uint64_def)

text \<open>
  Claim C4. With MEV running, the node in turn, \<open>rawBid\<close> non-nil and the block number
  right, a bid whose \<open>ParentHash\<close> differs from the current header's hash is rejected with
  the parent-hash InvalidBid error. The result has no dependence on \<open>GasFee\<close>, \<open>GasUsed\<close>,
  \<open>BuilderFee\<close>, \<open>PayBidTx\<close> or \<open>PayBidTxGasUsed\<close>: the rejection comes before any fee check.
\<close>

theorem SendBid_wrong_parent:
  assumes "MevRunning b s = (True, s1)" and "MinerInTurn b s1 = (True, s2)"
    and "CurrentHeader b s2 = (Some header, s3)" and "Number header = Some number"
    and "RawBid args = Some rawBid"
    and "BlockNumber rawBid = Uint64 number + 1"
    and "ParentHash rawBid \<noteq> Hash header"
  shows "SendBid b ctx args s =
    (Returned (0, Some (InvalidBidError
        (Sprintf ''non-aligned parent hash: %v'' [HashArg (Hash header)]))), s3,
     [MevRunningCall, MinerInTurnCall, CurrentHeaderCall])"
  using assms(4,5,6,7) by (simp add: SendBid_checked [OF assms(1,2,3)] checkBid_def)

text \<open>A bid on another parent whose fee fields would each fail a later check.\<close>

theorem SendBid_wrong_parent_witness:
  "SendBid (fake_backend True True) ()
     \<lparr> RawBid = Some \<lparr> BlockNumber = 42, ParentHash = 0xCD, GasUsed = 0,
                       GasFee = None, BuilderFee = Some 7 \<rparr>,
       PayBidTx = [1], PayBidTxGasUsed = 30000 \<rparr> 0 =
     (Returned (0, Some (InvalidBidError
         (Sprintf ''non-aligned parent hash: %v'' [HashArg 0xAB]))), 0,
      [MevRunningCall, MinerInTurnCall, CurrentHeaderCall])"
  using SendBid_wrong_parent [of "fake_backend True True" 0 0 0
      "\<lparr> Number = Some 41, Hash = 0xAB \<rparr>" 0 41
      "\<lparr> RawBid = Some \<lparr> BlockNumber = 42, ParentHash = 0xCD, GasUsed = 0,
                        GasFee = None, BuilderFee = Some 7 \<rparr>,
        PayBidTx = [1], PayBidTxGasUsed = 30000 \<rparr>"
      "\<lparr> BlockNumber = 42, ParentHash = 0xCD, GasUsed = 0,
         GasFee = None, BuilderFee = Some 7 \<rparr>" "()"]
  by (simp add: fake_backend_def Uint64_def)

text \<open>
  Claim C5, amended. A bid reaching the fee checks (MEV running, in turn, \<open>rawBid\<close> non-nil,
  right block number and parent hash) is rejected with an InvalidBid error whenever
  \<open>gasFee\<close> is nil, \<open>gasFee\<close> is zero, or \<open>gasUsed\<close> is zero, and the Backend's \<open>SendBid\<close> is not
  called. The check is \<open>GasFee.Cmp(common.Big0) == 0\<close>: a negative \<open>gasFee\<close> is not rejected
  by it.
\<close>

theorem SendBid_empty_fee:
  assumes "MevRunning b s = (True, s1)" and "MinerInTurn b s1 = (True, s2)"
    and "CurrentHeader b s2 = (Some header, s3)" and "Number header = Some number"
    and "RawBid args = Some rawBid"
    and "BlockNumber rawBid = Uint64 number + 1"
    and "ParentHash rawBid = Hash header"
    and "GasFee rawBid = None \<or> GasFee rawBid = Some 0 \<or> GasUsed rawBid = 0"
  shows "SendBid b ctx args s =
    (Returned (0, Some (InvalidBidError (Str ''empty gasFee or empty gasUsed''))), s3,
     [MevRunningCall, MinerInTurnCall, CurrentHeaderCall])"
  using assms(8)
  by (auto simp: SendBid_checked [OF assms(1,2,3)] checkBid_fees [OF assms(5,4,6,7)]
      split: option.splits)

theorem SendBid_empty_fee_witness:
  "SendBid (fake_backend True True) () (bid (Some 0) None [] 0) 0 =
     (Returned (0, Some (InvalidBidError (Str ''empty gasFee or empty gasUsed''))), 0,
      [MevRunningCall, MinerInTurnCall, CurrentHeaderCall])"
  using SendBid_empty_fee [of "fake_backend True True" 0 0 0
      "\<lparr> Number = Some 41, Hash = 0xAB \<rparr>" 0 41 "bid (Some 0) None [] 0"
      "\<lparr> BlockNumber = 42, ParentHash = 0xAB, GasUsed = 21000,
         GasFee = Some 0, BuilderFee = None \<rparr>" "()"]
  by (simp add: fake_backend_def bid_def Uint64_def)

text \<open>
  Claim C5 as stated fails: a bid at the right height and parent with \<open>gasFee = -5\<close> (not
  strictly positive), \<open>gasUsed = 21000\<close> and no builder fee is forwarded to the Backend,
  whose result is returned.
\<close>

theorem SendBid_negative_gasFee_counterexample:
  "GasFee (the (RawBid (bid (Some (- 5)) None [] 0))) = Some (- 5)
   \<and> \<not> (0 :: int) < - 5
   \<and> SendBid (fake_backend True True) () (bid (Some (- 5)) None [] 0) 0 =
       (Returned (0xB1D, None), 1,
        [MevRunningCall, MinerInTurnCall, CurrentHeaderCall,
         SendBidCall () (bid (Some (- 5)) None [] 0)])
   \<and> \<not> rejects_with is_InvalidBid
         (SendBid (fake_backend True True) () (bid (Some (- 5)) None [] 0) 0)"
  by (simp add: SendBid_def checkBid_def checkBuilderFee_def fake_backend_def bid_def
      Uint64_def)

text \<open>
  Claim C6, amended. A bid reaching the builder-fee checks with \<open>BuilderFee\<close> present and
  \<open>BuilderFee >= gasFee\<close> is rejected by the validator with an InvalidBid error whatever
  the other fields are, with one exception: when \<open>BuilderFee\<close> is exactly zero (so \<open>gasFee\<close>
  is negative) and \<open>PayBidTx\<close> is non-empty or \<open>PayBidTxGasUsed\<close> is non-zero, the earlier
  zero-builder-fee check rejects it with an InvalidPayBidTx error. In particular every such
  bid with a positive \<open>gasFee\<close> gets InvalidBid.
\<close>

theorem SendBid_builderFee_not_less:
  assumes "MevRunning b s = (True, s1)" and "MinerInTurn b s1 = (True, s2)"
    and "CurrentHeader b s2 = (Some header, s3)" and "Number header = Some number"
    and "RawBid args = Some rawBid"
    and "BlockNumber rawBid = Uint64 number + 1"
    and "ParentHash rawBid = Hash header"
    and "GasFee rawBid = Some gasFee" and "gasFee \<noteq> 0" and "GasUsed rawBid \<noteq> 0"
    and "BuilderFee rawBid = Some builderFee"
    and "builderFee \<ge> gasFee"
  shows "if builderFee = 0 \<and> (PayBidTx args \<noteq> [] \<or> PayBidTxGasUsed args \<noteq> 0)
         then rejects_with is_InvalidPayBidTx (SendBid b ctx args s)
         else rejects_with is_InvalidBid (SendBid b ctx args s)"
  using assms(11,12)
  by (simp add: SendBid_checked [OF assms(1,2,3)]
      checkBid_builder_fee [OF assms(5,4,6,7,8,9,10)] checkBuilderFee_def)

text \<open>
  Scenario B of the specification (builder fee 100 equal to the gas fee), here with a
  pay-bid transaction attached.
\<close>

theorem SendBid_builderFee_not_less_witness:
  "rejects_with is_InvalidBid
     (SendBid (fake_backend True True) () (bid (Some 100) (Some 100) [1] 21000) 0)"
  using SendBid_builderFee_not_less [of "fake_backend True True" 0 0 0
      "\<lparr> Number = Some 41, Hash = 0xAB \<rparr>" 0 41 "bid (Some 100) (Some 100) [1] 21000"
      "\<lparr> BlockNumber = 42, ParentHash = 0xAB, GasUsed = 21000,
         GasFee = Some 100, BuilderFee = Some 100 \<rparr>" 100 100 "()"]
  by (simp add: fake_backend_def bid_def Uint64_def)

text \<open>
  Claim C6 as stated fails: with \<open>gasFee = -5\<close>, \<open>BuilderFee = 0\<close> (present, and not less than
  the gas fee) and a non-empty \<open>PayBidTx\<close>, the error is InvalidPayBidTx, not InvalidBid.
\<close>

theorem SendBid_zero_builderFee_counterexample:
  "BuilderFee (the (RawBid (bid (Some (- 5)) (Some 0) [1] 0))) = Some 0
   \<and> (0 :: int) \<ge> - 5
   \<and> SendBid (fake_backend True True) () (bid (Some (- 5)) (Some 0) [1] 0) 0 =
       (Returned (0, Some (InvalidPayBidTxError
           (Str ''payBidTx should be nil when builder fee is 0''))), 0,
        [MevRunningCall, MinerInTurnCall, CurrentHeaderCall])
   \<and> \<not> rejects_with is_InvalidBid
         (SendBid (fake_backend True True) () (bid (Some (- 5)) (Some 0) [1] 0) 0)"
  by (simp add: SendBid_def checkBid_def checkBuilderFee_def fake_backend_def bid_def
      Uint64_def)

text \<open>
  Claim C7, amended. For a bid that has passed the gate, height, parent-hash and
  fee-presence checks, the validator rejects with an InvalidPayBidTx error (without calling
  the Backend) exactly when (i) \<open>BuilderFee\<close> is absent or exactly zero while \<open>PayBidTx\<close> is
  non-empty or \<open>PayBidTxGasUsed\<close> is non-zero, or (ii) \<open>BuilderFee\<close> is strictly positive and
  strictly less than \<open>gasFee\<close>, \<open>PayBidTxGasUsed\<close> does not exceed the ceiling, and exactly one
  of \<open>PayBidTx\<close> non-empty and \<open>PayBidTxGasUsed\<close> non-zero holds.
\<close>

theorem SendBid_coupling:
  fixes b :: "('c, 's, 'e) Backend"
  assumes "MevRunning b s = (True, s1)" and "MinerInTurn b s1 = (True, s2)"
    and "CurrentHeader b s2 = (Some header, s3)" and "Number header = Some number"
    and "RawBid args = Some rawBid"
    and "BlockNumber rawBid = Uint64 number + 1"
    and "ParentHash rawBid = Hash header"
    and "GasFee rawBid = Some gasFee" and "gasFee \<noteq> 0" and "GasUsed rawBid \<noteq> 0"
  shows "rejects_with is_InvalidPayBidTx (SendBid b ctx args s)
           \<longleftrightarrow> coupling_violated args rawBid gasFee"
proof -
  have "rejects_with is_InvalidPayBidTx (SendBid b ctx args s) \<longleftrightarrow>
        (\<exists>err. checkBuilderFee args rawBid gasFee = Some (err :: 'e error)
               \<and> is_InvalidPayBidTx err)"
    by (simp add: SendBid_checked [OF assms(1,2,3)] rejects_with_submitted
        checkBid_builder_fee [OF assms(5,4,6,7,8,9,10)] split: option.splits prod.splits)
  then show ?thesis
    by (simp only: checkBuilderFee_InvalidPayBidTx_iff)
qed

text \<open>
  Scenario C of the specification (builder fee 10, no pay-bid transaction, gas used 5000)
  is rejected; the same bid with the transaction attached is not.
\<close>

theorem SendBid_coupling_witness:
  "rejects_with is_InvalidPayBidTx
     (SendBid (fake_backend True True) () (bid (Some 100) (Some 10) [] 5000) 0)
   \<and> \<not> rejects_with is_InvalidPayBidTx
     (SendBid (fake_backend True True) () (bid (Some 100) (Some 10) [1] 5000) 0)"
  using SendBid_coupling [of "fake_backend True True" 0 0 0
      "\<lparr> Number = Some 41, Hash = 0xAB \<rparr>" 0 41 "bid (Some 100) (Some 10) [] 5000"
      "\<lparr> BlockNumber = 42, ParentHash = 0xAB, GasUsed = 21000,
         GasFee = Some 100, BuilderFee = Some 10 \<rparr>" 100 "()"]
    SendBid_coupling [of "fake_backend True True" 0 0 0
      "\<lparr> Number = Some 41, Hash = 0xAB \<rparr>" 0 41 "bid (Some 100) (Some 10) [1] 5000"
      "\<lparr> BlockNumber = 42, ParentHash = 0xAB, GasUsed = 21000,
         GasFee = Some 100, BuilderFee = Some 10 \<rparr>" 100 "()"]
  by (simp add: fake_backend_def bid_def Uint64_def coupling_violated_def)

text \<open>
  Claim C7 as stated fails: with gas fee 100, builder fee 100, no \<open>PayBidTx\<close> and
  \<open>PayBidTxGasUsed = 5000\<close>, case (ii) of the claim holds, yet the error is InvalidBid: the
  check that the builder fee is less than the gas fee comes first.
\<close>

theorem SendBid_coupling_counterexample:
  "stated_coupling_violated (bid (Some 100) (Some 100) [] 5000)
     (the (RawBid (bid (Some 100) (Some 100) [] 5000)))
   \<and> SendBid (fake_backend True True) () (bid (Some 100) (Some 100) [] 5000) 0 =
       (Returned (0, Some (InvalidBidError (Str ''builder fee must be less than gas fee''))), 0,
        [MevRunningCall, MinerInTurnCall, CurrentHeaderCall])
   \<and> \<not> rejects_with is_InvalidPayBidTx
         (SendBid (fake_backend True True) () (bid (Some 100) (Some 100) [] 5000) 0)"
  by (simp add: SendBid_def checkBid_def checkBuilderFee_def fake_backend_def bid_def
      Uint64_def stated_coupling_violated_def)

text \<open>
  Claim C8. For a bid reaching the builder-fee checks with \<open>BuilderFee\<close> strictly positive
  and less than \<open>gasFee\<close>, a \<open>PayBidTxGasUsed\<close> above the ceiling of 25000 is rejected with an
  InvalidBid error, not InvalidPayBidTx. The result is the same whether \<open>PayBidTx\<close> is empty
  or not: the ceiling check comes before the check that aligns \<open>PayBidTx\<close> with
  \<open>PayBidTxGasUsed\<close>.
\<close>

theorem SendBid_gas_ceiling:
  assumes "MevRunning b s = (True, s1)" and "MinerInTurn b s1 = (True, s2)"
    and "CurrentHeader b s2 = (Some header, s3)" and "Number header = Some number"
    and "RawBid args = Some rawBid"
    and "BlockNumber rawBid = Uint64 number + 1"
    and "ParentHash rawBid = Hash header"
    and "GasFee rawBid = Some gasFee" and "gasFee \<noteq> 0" and "GasUsed rawBid \<noteq> 0"
    and "BuilderFee rawBid = Some builderFee"
    and "0 < builderFee" and "builderFee < gasFee"
    and "PayBidTxGasUsed args > 25000"
  shows "SendBid b ctx args s =
    (Returned (0, Some (InvalidBidError
        (Sprintf ''transfer tx gas used must be no more than %v'' [Uint64Arg 25000]))), s3,
     [MevRunningCall, MinerInTurnCall, CurrentHeaderCall])"
  using assms(11,12,13,14)
  by (simp add: SendBid_checked [OF assms(1,2,3)]
      checkBid_builder_fee [OF assms(5,4,6,7,8,9,10)] checkBuilderFee_def TransferTxGasLimit_def)

text \<open>
  Scenario D of the specification (builder fee 10, gas used 30000), with the pay-bid
  transaction absent and present.
\<close>

theorem SendBid_gas_ceiling_witness:
  "SendBid (fake_backend True True) () (bid (Some 100) (Some 10) [] 30000) 0 =
     (Returned (0, Some (InvalidBidError
         (Sprintf ''transfer tx gas used must be no more than %v'' [Uint64Arg 25000]))), 0,
      [MevRunningCall, MinerInTurnCall, CurrentHeaderCall])
   \<and> SendBid (fake_backend True True) () (bid (Some 100) (Some 10) [1] 30000) 0 =
     (Returned (0, Some (InvalidBidError
         (Sprintf ''transfer tx gas used must be no more than %v'' [Uint64Arg 25000]))), 0,
      [MevRunningCall, MinerInTurnCall, CurrentHeaderCall])"
  using SendBid_gas_ceiling [of "fake_backend True True" 0 0 0
      "\<lparr> Number = Some 41, Hash = 0xAB \<rparr>" 0 41 "bid (Some 100) (Some 10) [] 30000"
      "\<lparr> BlockNumber = 42, ParentHash = 0xAB, GasUsed = 21000,
         GasFee = Some 100, BuilderFee = Some 10 \<rparr>" 100 10 "()"]
    SendBid_gas_ceiling [of "fake_backend True True" 0 0 0
      "\<lparr> Number = Some 41, Hash = 0xAB \<rparr>" 0 41 "bid (Some 100) (Some 10) [1] 30000"
      "\<lparr> BlockNumber = 42, ParentHash = 0xAB, GasUsed = 21000,
         GasFee = Some 100, BuilderFee = Some 10 \<rparr>" 100 10 "()"]
  by (simp add: fake_backend_def bid_def Uint64_def)

section \<open>ReportIssue: the claim\<close>

text \<open>
  Claim C9. For every issue report, \<open>ReportIssue\<close> appends one Error record carrying the
  report's bid hash and message to the log and returns the nil error. It makes no call on
  the Backend and leaves the Backend's state as it was.
\<close>

theorem ReportIssue_logs_and_succeeds:
  "ReportIssue (Some issue) s lg =
     (Returned None, s, [],
      lg @ [LogError ''received issue''
              [(''bidHash'', HashValue (BidHash issue)),
               (''message'', StringValue (Message issue))]])"
  by (simp add: ReportIssue_def)

section \<open>UnmarshalTOML: the claim\<close>

text \<open>
  Claim C10. For every starting \<open>Config\<close> and every decoder: if the decoder fails,
  \<open>UnmarshalTOML\<close> returns its error and the \<open>Config\<close> is unchanged, whatever the decoder has
  written to the wire value; if it succeeds, \<open>UnmarshalTOML\<close> returns nil and every field of
  the \<open>Config\<close> is the decoded value where the wire field is present and its old value
  where the wire field is nil.
\<close>

theorem UnmarshalTOML_merges:
  "(\<forall>err dec. unmarshal decConfig_zero = (Some err, dec) \<longrightarrow>
       UnmarshalTOML c unmarshal = (Some err, c))
   \<and> (\<forall>dec. unmarshal decConfig_zero = (None, dec) \<longrightarrow>
       fst (UnmarshalTOML c unmarshal) = None
       \<and> fields_merged dec c (snd (UnmarshalTOML c unmarshal)))"
  using UnmarshalTOML_failed [of unmarshal _ _ c] UnmarshalTOML_decoded [of unmarshal _ c]
  by blast

text \<open>
  A decoder that fails after writing a field, and one that sets \<open>NetworkId\<close>, \<open>NoPruning\<close>
  and \<open>OverrideCancun\<close> only.
\<close>

theorem UnmarshalTOML_merges_witness:
  "UnmarshalTOML Config_zero (\<lambda>dec. (Some (), dec\<lparr>dec_NetworkId := Some 56\<rparr>)) =
     (Some (), Config_zero)
   \<and> fst (UnmarshalTOML Config_zero
        (\<lambda>dec. (None :: unit option, dec\<lparr>dec_NetworkId := Some 56, dec_NoPruning := Some True,
           dec_OverrideCancun := Some 7\<rparr>))) = None
   \<and> NetworkId (snd (UnmarshalTOML Config_zero
        (\<lambda>dec. (None :: unit option, dec\<lparr>dec_NetworkId := Some 56, dec_NoPruning := Some True,
           dec_OverrideCancun := Some 7\<rparr>)))) = 56
   \<and> NoPruning (snd (UnmarshalTOML Config_zero
        (\<lambda>dec. (None :: unit option, dec\<lparr>dec_NetworkId := Some 56, dec_NoPruning := Some True,
           dec_OverrideCancun := Some 7\<rparr>))))
   \<and> OverrideCancun (snd (UnmarshalTOML Config_zero
        (\<lambda>dec. (None :: unit option, dec\<lparr>dec_NetworkId := Some 56, dec_NoPruning := Some True,
           dec_OverrideCancun := Some 7\<rparr>)))) = Some 7
   \<and> DiffBlock (snd (UnmarshalTOML Config_zero
        (\<lambda>dec. (None :: unit option, dec\<lparr>dec_NetworkId := Some 56, dec_NoPruning := Some True,
           dec_OverrideCancun := Some 7\<rparr>)))) = DiffBlock Config_zero"
  using
    UnmarshalTOML_merges [of "\<lambda>dec. (Some (), dec\<lparr>dec_NetworkId := Some 56\<rparr>)" Config_zero]
    UnmarshalTOML_merges [of "\<lambda>dec. (None :: unit option, dec\<lparr>dec_NetworkId := Some 56,
       dec_NoPruning := Some True, dec_OverrideCancun := Some 7\<rparr>)" Config_zero]
  by (simp add: fields_merged_def merged_def merged_ref_def decConfig_zero_def)

end
